theory Spec2Isabelle
  imports Complex_Main
begin

section \<open>Python values, exceptions and objects\<close>

text \<open>
  The program is the class \<open>PoolConfig\<close> of \<open>utils/poolconfig.py\<close>. Its methods read and
  write attributes of \<open>self\<close> and call \<open>math.sqrt\<close>, \<open>math.log\<close>, \<open>math.floor\<close>,
  \<open>int\<close>, \<open>/\<close> and \<open>*\<close>.

  A Python \<open>float\<close> is an IEEE double: a finite value, an infinity or a NaN. Every finite
  double is a real number, so the finite ones are embedded as \<open>Fin r\<close>; which reals are
  doubles is left open, and a statement proved for every \<open>Fin r\<close> holds for every finite
  double. The two zeros \<open>0.0\<close> and \<open>-0.0\<close> are both \<open>Fin 0\<close>: the operations below raise the
  same exceptions and give the same integers on both.
\<close>

datatype pyfloat = Fin real | PosInf | NegInf | NaN

datatype pyval =
    PInt int
  | PFloat pyfloat
  | PStr string
  | PNone
  | PNotImplemented
  | PList "pyval list"

datatype pyerr =
    AttributeError string
  | TypeError
  | ValueError
  | OverflowError
  | ZeroDivisionError
  | NotImplementedError

text \<open>
  An instance is its attribute dictionary. Reading an attribute that the dictionary does
  not hold raises \<open>AttributeError\<close> (the class defines no data attribute and no
  \<open>__getattr__\<close>).
\<close>

type_synonym obj = "string \<rightharpoonup> pyval"

text \<open>
  A computation on \<open>self\<close> takes the object and returns its outcome, a value or the
  exception raised, with the object as the computation left it: an exception does not
  undo the assignments made before it.
\<close>

type_synonym 'a py = "obj \<Rightarrow> (pyerr + 'a) \<times> obj"

definition py_return :: "'a \<Rightarrow> 'a py" where
  "py_return x = (\<lambda>s. (Inr x, s))"

definition py_lift :: "pyerr + 'a \<Rightarrow> 'a py" where
  "py_lift r = (\<lambda>s. (r, s))"

definition py_bind :: "'a py \<Rightarrow> ('a \<Rightarrow> 'b py) \<Rightarrow> 'b py" where
  "py_bind m f = (\<lambda>s. case m s of (Inl e, s') \<Rightarrow> (Inl e, s') | (Inr x, s') \<Rightarrow> f x s')"

definition get_attr :: "string \<Rightarrow> pyval py" where
  "get_attr k = (\<lambda>s. case s k of None \<Rightarrow> (Inl (AttributeError k), s) | Some v \<Rightarrow> (Inr v, s))"

definition set_attr :: "string \<Rightarrow> pyval \<Rightarrow> unit py" where
  "set_attr k v = (\<lambda>s. (Inr (), s(k \<mapsto> v)))"

section \<open>The numeric runtime\<close>

text \<open>
  The interpreter and the C library are not part of the repository; what they compute on
  in-domain finite arguments is a parameter:
  \<^item> \<open>truediv\<close>: the operator \<open>/\<close> on two arbitrary objects, a value or an exception;
  \<^item> \<open>float_of_int\<close>: the conversion of an \<open>int\<close> to a double, \<open>None\<close> when it raises
  \<open>OverflowError\<close>;
  \<^item> \<open>libm_sqrt\<close>: \<open>sqrt\<close> on a finite double that is not negative;
  \<^item> \<open>log_1_0001\<close>: \<open>math.log(x, 1.0001)\<close>, that is \<open>log(x) / log(1.0001)\<close> in double
  arithmetic, on a finite positive double (a finite double: \<open>log(1.0001)\<close> is not zero and
  the quotient is far from overflow);
  \<^item> \<open>log_1_0001_int\<close>: the same on a positive \<open>int\<close>, which \<open>math.log\<close> accepts at any size.

  Which exception is raised, and on which arguments, is not a parameter: it is written
  out below as CPython's \<open>math\<close> module does it.
\<close>

record runtime =
  truediv :: "pyval \<Rightarrow> pyval \<Rightarrow> pyerr + pyval"
  float_of_int :: "int \<Rightarrow> real option"
  libm_sqrt :: "real \<Rightarrow> real"
  log_1_0001 :: "real \<Rightarrow> real"
  log_1_0001_int :: "int \<Rightarrow> real"

text \<open>
  \<open>math.sqrt(x)\<close>: the argument is converted to a double (\<open>TypeError\<close> when it is not a
  number, \<open>OverflowError\<close> when an \<open>int\<close> is too large); a NaN and the positive infinity
  are returned as they are; a negative number raises \<open>ValueError\<close> (math domain error).
\<close>

definition as_double :: "runtime \<Rightarrow> pyval \<Rightarrow> pyerr + pyfloat" where
  "as_double rt v =
     (case v of
        PFloat f \<Rightarrow> Inr f
      | PInt n \<Rightarrow> (case float_of_int rt n of None \<Rightarrow> Inl OverflowError | Some r \<Rightarrow> Inr (Fin r))
      | PStr _ \<Rightarrow> Inl TypeError
      | PNone \<Rightarrow> Inl TypeError
      | PNotImplemented \<Rightarrow> Inl TypeError
      | PList _ \<Rightarrow> Inl TypeError)"

definition sqrt_double :: "runtime \<Rightarrow> pyfloat \<Rightarrow> pyerr + pyfloat" where
  "sqrt_double rt f =
     (case f of
        Fin r \<Rightarrow> (if r < 0 then Inl ValueError else Inr (Fin (libm_sqrt rt r)))
      | PosInf \<Rightarrow> Inr PosInf
      | NegInf \<Rightarrow> Inl ValueError
      | NaN \<Rightarrow> Inr NaN)"

definition math_sqrt :: "runtime \<Rightarrow> pyval \<Rightarrow> pyerr + pyfloat" where
  "math_sqrt rt v = (case as_double rt v of Inl e \<Rightarrow> Inl e | Inr f \<Rightarrow> sqrt_double rt f)"

text \<open>
  \<open>math.sqrt(...) * q96\<close> with \<open>q96 = 2**96\<close>: the left operand is a double that
  \<open>math.sqrt\<close> returned, the right one an \<open>int\<close> that converts to a double exactly. A finite
  square root is zero or lies between \<open>2**-537\<close> and \<open>2**512\<close>, so scaling it by a power of
  two neither rounds nor overflows.
\<close>

definition q96 :: int where
  "q96 = 2 ^ 96"

definition float_mul_q96 :: "pyfloat \<Rightarrow> pyfloat" where
  "float_mul_q96 f =
     (case f of Fin r \<Rightarrow> Fin (r * of_int q96) | PosInf \<Rightarrow> PosInf | NegInf \<Rightarrow> NegInf | NaN \<Rightarrow> NaN)"

text \<open>
  \<open>int(x)\<close> on a double truncates towards zero; an infinity raises \<open>OverflowError\<close>, a NaN
  \<open>ValueError\<close>.
\<close>

definition int_of_float :: "pyfloat \<Rightarrow> pyerr + int" where
  "int_of_float f =
     (case f of
        Fin r \<Rightarrow> Inr (if 0 \<le> r then \<lfloor>r\<rfloor> else \<lceil>r\<rceil>)
      | PosInf \<Rightarrow> Inl OverflowError
      | NegInf \<Rightarrow> Inl OverflowError
      | NaN \<Rightarrow> Inl ValueError)"

text \<open>
  \<open>math.log(x, 1.0001)\<close>: an \<open>int\<close> that is not positive raises \<open>ValueError\<close> before any
  conversion, a positive one has a finite logarithm at any size; a double that is zero,
  negative or the negative infinity raises \<open>ValueError\<close> (math domain error); a NaN and the
  positive infinity pass through the division by \<open>log(1.0001)\<close> unchanged; anything that
  is not a number raises \<open>TypeError\<close>.
\<close>

definition math_log :: "runtime \<Rightarrow> pyval \<Rightarrow> pyerr + pyfloat" where
  "math_log rt v =
     (case v of
        PInt n \<Rightarrow> (if n \<le> 0 then Inl ValueError else Inr (Fin (log_1_0001_int rt n)))
      | PFloat f \<Rightarrow>
          (case f of
             Fin r \<Rightarrow> (if r \<le> 0 then Inl ValueError else Inr (Fin (log_1_0001 rt r)))
           | PosInf \<Rightarrow> Inr PosInf
           | NegInf \<Rightarrow> Inl ValueError
           | NaN \<Rightarrow> Inr NaN)
      | PStr _ \<Rightarrow> Inl TypeError
      | PNone \<Rightarrow> Inl TypeError
      | PNotImplemented \<Rightarrow> Inl TypeError
      | PList _ \<Rightarrow> Inl TypeError)"

text \<open>
  \<open>math.floor(x)\<close> on a double is the exact floor as an \<open>int\<close>; an infinity raises
  \<open>OverflowError\<close>, a NaN \<open>ValueError\<close>.
\<close>

definition math_floor :: "pyfloat \<Rightarrow> pyerr + int" where
  "math_floor f =
     (case f of
        Fin r \<Rightarrow> Inr \<lfloor>r\<rfloor>
      | PosInf \<Rightarrow> Inl OverflowError
      | NegInf \<Rightarrow> Inl OverflowError
      | NaN \<Rightarrow> Inl ValueError)"

section \<open>The class PoolConfig\<close>

text \<open>
  \<open>__init__(self, initial, upper_bound, lower_bound)\<close> assigns four attributes of a new
  instance and checks nothing.
\<close>

definition PoolConfig_init :: "pyval \<Rightarrow> pyval \<Rightarrow> pyval \<Rightarrow> obj" where
  "PoolConfig_init initial upper_bound lower_bound =
     [''token0_initial'' \<mapsto> initial,
      ''token0_upper_bound'' \<mapsto> upper_bound,
      ''token0_lower_bound'' \<mapsto> lower_bound,
      ''token1_initial'' \<mapsto> PInt 1]"

text \<open>
  The right-hand side \<open>math.sqrt(self.<attr> / self.token1_initial)\<close> of the three
  assignments of \<open>set_prices\<close>: the operands are read left to right, then divided, then the
  root is taken.
\<close>

definition price_of :: "runtime \<Rightarrow> string \<Rightarrow> pyval py" where
  "price_of rt attr =
     py_bind (get_attr attr) (\<lambda>a.
     py_bind (get_attr ''token1_initial'') (\<lambda>b.
     py_bind (py_lift (truediv rt a b)) (\<lambda>q.
     py_bind (py_lift (math_sqrt rt q)) (\<lambda>r.
     py_return (PFloat r)))))"

definition set_prices :: "runtime \<Rightarrow> pyval py" where
  "set_prices rt =
     py_bind (price_of rt ''initial'') (\<lambda>p0.
     py_bind (set_attr ''initial_price'' p0) (\<lambda>_.
     py_bind (price_of rt ''token0_upper_bound'') (\<lambda>p1.
     py_bind (set_attr ''upper_price_bound'' p1) (\<lambda>_.
     py_bind (price_of rt ''token0_lower_bound'') (\<lambda>p2.
     py_bind (set_attr ''lower_price_bound'' p2) (\<lambda>_.
     py_bind (get_attr ''initial_price'') (\<lambda>x.
     py_bind (get_attr ''upper_price_bound'') (\<lambda>y.
     py_bind (get_attr ''lower_price_bound'') (\<lambda>z.
     py_return (PList [x, y, z]))))))))))"

text \<open>The right-hand side \<open>int(math.sqrt(self.<attr>) * q96)\<close> of \<open>set_price_to_sqrtp\<close>.\<close>

definition sqrtp_of :: "runtime \<Rightarrow> string \<Rightarrow> pyval py" where
  "sqrtp_of rt attr =
     py_bind (get_attr attr) (\<lambda>p.
     py_bind (py_lift (math_sqrt rt p)) (\<lambda>r.
     py_bind (py_lift (int_of_float (float_mul_q96 r))) (\<lambda>n.
     py_return (PInt n))))"

definition set_price_to_sqrtp :: "runtime \<Rightarrow> pyval py" where
  "set_price_to_sqrtp rt =
     py_bind (sqrtp_of rt ''initial_price'') (\<lambda>n0.
     py_bind (set_attr ''initial_price_sqrtp'' n0) (\<lambda>_.
     py_bind (sqrtp_of rt ''upper_price_bound'') (\<lambda>n1.
     py_bind (set_attr ''upper_price_sqrtp'' n1) (\<lambda>_.
     py_bind (sqrtp_of rt ''lower_price_bound'') (\<lambda>n2.
     py_bind (set_attr ''lower_price_sqrtp'' n2) (\<lambda>_.
     py_bind (get_attr ''initial_price_sqrtp'') (\<lambda>x.
     py_bind (get_attr ''upper_price_sqrtp'') (\<lambda>y.
     py_bind (get_attr ''lower_price_sqrtp'') (\<lambda>z.
     py_return (PList [x, y, z]))))))))))"

text \<open>The right-hand side \<open>math.floor(math.log(self.<attr>, 1.0001))\<close> of \<open>set_price_ticks\<close>.\<close>

definition tick_of :: "runtime \<Rightarrow> string \<Rightarrow> pyval py" where
  "tick_of rt attr =
     py_bind (get_attr attr) (\<lambda>p.
     py_bind (py_lift (math_log rt p)) (\<lambda>l.
     py_bind (py_lift (math_floor l)) (\<lambda>n.
     py_return (PInt n))))"

definition set_price_ticks :: "runtime \<Rightarrow> pyval py" where
  "set_price_ticks rt =
     py_bind (tick_of rt ''initial_price'') (\<lambda>t0.
     py_bind (set_attr ''initial_tick'' t0) (\<lambda>_.
     py_bind (tick_of rt ''upper_price_bound'') (\<lambda>t1.
     py_bind (set_attr ''upper_tick'' t1) (\<lambda>_.
     py_bind (tick_of rt ''lower_price_bound'') (\<lambda>t2.
     py_bind (set_attr ''lower_tick'' t2) (\<lambda>_.
     py_bind (get_attr ''initial_tick'') (\<lambda>x.
     py_bind (get_attr ''upper_tick'') (\<lambda>y.
     py_bind (get_attr ''lower_tick'') (\<lambda>z.
     py_return (PList [x, y, z]))))))))))"

text \<open>\<open>calculate_liqudiry\<close> has the body \<open>pass\<close>: the call returns \<open>None\<close>.\<close>

definition calculate_liqudiry :: "pyval py" where
  "calculate_liqudiry = py_return PNone"

text \<open>
  A caller holding an instance can call its four methods in any order, catching what they
  raise; \<open>run_methods\<close> is the instance after such a sequence of calls.
\<close>

datatype meth = Set_prices | Set_price_to_sqrtp | Set_price_ticks | Calculate_liqudiry

definition call :: "runtime \<Rightarrow> meth \<Rightarrow> pyval py" where
  "call rt m =
     (case m of
        Set_prices \<Rightarrow> set_prices rt
      | Set_price_to_sqrtp \<Rightarrow> set_price_to_sqrtp rt
      | Set_price_ticks \<Rightarrow> set_price_ticks rt
      | Calculate_liqudiry \<Rightarrow> calculate_liqudiry)"

primrec run_methods :: "runtime \<Rightarrow> meth list \<Rightarrow> obj \<Rightarrow> obj" where
  "run_methods rt [] s = s"
| "run_methods rt (m # ms) s = run_methods rt ms (snd (call rt m s))"

text \<open>
  The attributes the constructor stores, and the attributes each method assigns.
\<close>

definition input_fields :: "string set" where
  "input_fields =
     {''token0_initial'', ''token0_upper_bound'', ''token0_lower_bound'', ''token1_initial''}"

definition price_fields :: "string set" where
  "price_fields = {''initial_price'', ''upper_price_bound'', ''lower_price_bound''}"

definition sqrtp_fields :: "string set" where
  "sqrtp_fields = {''initial_price_sqrtp'', ''upper_price_sqrtp'', ''lower_price_sqrtp''}"

definition tick_fields :: "string set" where
  "tick_fields = {''initial_tick'', ''upper_tick'', ''lower_tick''}"

text \<open>\<open>writes_only A m\<close>: whatever its outcome, \<open>m\<close> leaves every attribute outside \<open>A\<close> as it was.\<close>

definition writes_only :: "string set \<Rightarrow> 'a py \<Rightarrow> bool" where
  "writes_only A m = (\<forall>s. snd (m s) |` (- A) = s |` (- A))"

text \<open>
  A call signals "not implemented" when it raises \<open>NotImplementedError\<close> or returns the
  sentinel \<open>NotImplemented\<close>.
\<close>

definition not_implemented_signal :: "pyerr + pyval \<Rightarrow> bool" where
  "not_implemented_signal r = (r = Inl NotImplementedError \<or> r = Inr PNotImplemented)"

text \<open>The value of a finite number, an \<open>int\<close> or a finite double, as a real.\<close>

definition real_number :: "pyval \<Rightarrow> real option" where
  "real_number v =
     (case v of
        PInt n \<Rightarrow> Some (of_int n)
      | PFloat f \<Rightarrow> (case f of Fin r \<Rightarrow> Some r | PosInf \<Rightarrow> None | NegInf \<Rightarrow> None | NaN \<Rightarrow> None)
      | PStr _ \<Rightarrow> None
      | PNone \<Rightarrow> None
      | PNotImplemented \<Rightarrow> None
      | PList _ \<Rightarrow> None)"

text \<open>
  One runtime among those the parameter ranges over: it computes without rounding and
  without overflow. Division follows the rules of \<open>float.__truediv__\<close>: a zero divisor
  raises \<open>ZeroDivisionError\<close>, a NaN operand gives a NaN, an infinity divided by an
  infinity a NaN, a finite number divided by an infinity zero.
\<close>

definition float_truediv :: "pyfloat \<Rightarrow> pyfloat \<Rightarrow> pyerr + pyfloat" where
  "float_truediv x y =
     (case y of
        Fin b \<Rightarrow>
          (if b = 0 then Inl ZeroDivisionError
           else (case x of
                   Fin a \<Rightarrow> Inr (Fin (a / b))
                 | PosInf \<Rightarrow> Inr (if 0 < b then PosInf else NegInf)
                 | NegInf \<Rightarrow> Inr (if 0 < b then NegInf else PosInf)
                 | NaN \<Rightarrow> Inr NaN))
      | PosInf \<Rightarrow>
          (case x of Fin a \<Rightarrow> Inr (Fin 0) | PosInf \<Rightarrow> Inr NaN | NegInf \<Rightarrow> Inr NaN | NaN \<Rightarrow> Inr NaN)
      | NegInf \<Rightarrow>
          (case x of Fin a \<Rightarrow> Inr (Fin 0) | PosInf \<Rightarrow> Inr NaN | NegInf \<Rightarrow> Inr NaN | NaN \<Rightarrow> Inr NaN)
      | NaN \<Rightarrow> Inr NaN)"

definition exact_double :: "pyval \<Rightarrow> pyerr + pyfloat" where
  "exact_double v =
     (case v of
        PInt n \<Rightarrow> Inr (Fin (of_int n))
      | PFloat f \<Rightarrow> Inr f
      | PStr _ \<Rightarrow> Inl TypeError
      | PNone \<Rightarrow> Inl TypeError
      | PNotImplemented \<Rightarrow> Inl TypeError
      | PList _ \<Rightarrow> Inl TypeError)"

definition exact_truediv :: "pyval \<Rightarrow> pyval \<Rightarrow> pyerr + pyval" where
  "exact_truediv a b =
     (case exact_double a of
        Inl e \<Rightarrow> Inl e
      | Inr x \<Rightarrow>
          (case exact_double b of
             Inl e \<Rightarrow> Inl e
           | Inr y \<Rightarrow> (case float_truediv x y of Inl e \<Rightarrow> Inl e | Inr q \<Rightarrow> Inr (PFloat q))))"

definition exact_runtime :: runtime where
  "exact_runtime =
     \<lparr>truediv = exact_truediv,
      float_of_int = (\<lambda>n. Some (of_int n)),
      libm_sqrt = sqrt,
      log_1_0001 = (\<lambda>x. ln x / ln (10001 / 10000)),
      log_1_0001_int = (\<lambda>n. ln (of_int n) / ln (10001 / 10000))\<rparr>"

text \<open>
  The price of a tick is \<open>1.0001\<close> to its power, and a tick brackets a price when
  \<open>1.0001^tick \<le> price < 1.0001^(tick+1)\<close>.
\<close>

definition tick_base :: real where
  "tick_base = 10001 / 10000"

definition tick_power :: "int \<Rightarrow> real" where
  "tick_power t = (if 0 \<le> t then tick_base ^ nat t else 1 / tick_base ^ nat (- t))"

definition tick_brackets :: "int \<Rightarrow> real \<Rightarrow> bool" where
  "tick_brackets t p = (tick_power t \<le> p \<and> p < tick_power (t + 1))"

text \<open>
  The double that the runtime's \<open>math.log(v, 1.0001)\<close> is on a positive finite number \<open>v\<close>
  (see \<open>math_log\<close>); other arguments are not in its domain.
\<close>

definition runtime_log :: "runtime \<Rightarrow> pyval \<Rightarrow> real" where
  "runtime_log rt v =
     (case v of
        PInt n \<Rightarrow> log_1_0001_int rt n
      | PFloat f \<Rightarrow> (case f of Fin r \<Rightarrow> log_1_0001 rt r | PosInf \<Rightarrow> 0 | NegInf \<Rightarrow> 0 | NaN \<Rightarrow> 0)
      | PStr _ \<Rightarrow> 0
      | PNone \<Rightarrow> 0
      | PNotImplemented \<Rightarrow> 0
      | PList _ \<Rightarrow> 0)"

text \<open>
  One value of the logarithm as CPython computes it on IEEE doubles: at the double
  \<open>1.0095447887339337 = 2273292767177985 / 2^51\<close> the call
  \<open>math.log(1.0095447887339337, 1.0001)\<close> evaluates to \<open>95.0\<close>. \<open>measured_runtime\<close> has this
  value at this double and is \<open>exact_runtime\<close> elsewhere; \<open>measured_state\<close> is an instance
  whose three price fields hold this double.
\<close>

definition measured_price :: real where
  "measured_price = 2273292767177985 / 2 ^ 51"

definition measured_runtime :: runtime where
  "measured_runtime =
     exact_runtime\<lparr>log_1_0001 :=
       (\<lambda>x. if x = measured_price then 95 else ln x / ln (10001 / 10000))\<rparr>"

definition measured_state :: obj where
  "measured_state =
     (PoolConfig_init (PInt 2000) (PInt 3000) (PInt 1000))
       (''initial_price'' \<mapsto> PFloat (Fin measured_price),
        ''upper_price_bound'' \<mapsto> PFloat (Fin measured_price),
        ''lower_price_bound'' \<mapsto> PFloat (Fin measured_price))"

section \<open>A fresh instance\<close>

lemmas py_defs = py_return_def py_lift_def py_bind_def get_attr_def set_attr_def

lemma set_prices_fresh:
  "set_prices rt (PoolConfig_init a b c) = (Inl (AttributeError ''initial''), PoolConfig_init a b c)"
  by (simp add: set_prices_def price_of_def py_defs PoolConfig_init_def)

lemma set_price_to_sqrtp_fresh:
  "set_price_to_sqrtp rt (PoolConfig_init a b c) =
     (Inl (AttributeError ''initial_price''), PoolConfig_init a b c)"
  by (simp add: set_price_to_sqrtp_def sqrtp_of_def py_defs PoolConfig_init_def)

lemma set_price_ticks_fresh:
  "set_price_ticks rt (PoolConfig_init a b c) =
     (Inl (AttributeError ''initial_price''), PoolConfig_init a b c)"
  by (simp add: set_price_ticks_def tick_of_def py_defs PoolConfig_init_def)

lemma calculate_liqudiry_any: "calculate_liqudiry s = (Inr PNone, s)"
  by (simp add: calculate_liqudiry_def py_return_def)

lemma call_fresh: "snd (call rt m (PoolConfig_init a b c)) = PoolConfig_init a b c"
  by (cases m)
    (simp_all add: call_def set_prices_fresh set_price_to_sqrtp_fresh set_price_ticks_fresh
      calculate_liqudiry_any)

lemma run_methods_fresh: "run_methods rt ms (PoolConfig_init a b c) = PoolConfig_init a b c"
  by (induction ms) (simp_all add: call_fresh)

text \<open>
  C2. Whatever the constructor's arguments and whatever the runtime computes,
  \<open>set_prices\<close> on an instance that came from the constructor, also after any sequence of
  calls of the class's methods, raises \<open>AttributeError\<close> for the attribute \<open>initial\<close>,
  which no method assigns. It raises on its first attribute read, so the instance is as
  it was and holds none of \<open>initial_price\<close>, \<open>upper_price_bound\<close>, \<open>lower_price_bound\<close>.
\<close>

theorem set_prices_always_attribute_error:
  "set_prices rt (run_methods rt ms (PoolConfig_init a b c)) =
     (Inl (AttributeError ''initial''), PoolConfig_init a b c)
   \<and> snd (set_prices rt (run_methods rt ms (PoolConfig_init a b c))) ''initial'' = None
   \<and> snd (set_prices rt (run_methods rt ms (PoolConfig_init a b c))) ''initial_price'' = None
   \<and> snd (set_prices rt (run_methods rt ms (PoolConfig_init a b c))) ''upper_price_bound'' = None
   \<and> snd (set_prices rt (run_methods rt ms (PoolConfig_init a b c))) ''lower_price_bound'' = None"
  by (simp add: run_methods_fresh set_prices_fresh) (simp add: PoolConfig_init_def)

text \<open>
  C9. On an instance fresh from the constructor, \<open>set_price_to_sqrtp\<close> and
  \<open>set_price_ticks\<close> both raise \<open>AttributeError\<close> for \<open>initial_price\<close>, the first attribute
  they read; neither returns a value and neither changes the instance.
\<close>

theorem derived_methods_fail_before_prices:
  "set_price_to_sqrtp rt (PoolConfig_init a b c) =
     (Inl (AttributeError ''initial_price''), PoolConfig_init a b c)
   \<and> set_price_ticks rt (PoolConfig_init a b c) =
     (Inl (AttributeError ''initial_price''), PoolConfig_init a b c)"
  by (simp add: set_price_to_sqrtp_fresh set_price_ticks_fresh)

section \<open>The unimplemented method\<close>

text \<open>
  C5, as the code has it. \<open>calculate_liqudiry\<close> is a no-op on every instance in every
  state: it raises nothing, returns \<open>None\<close> (not the sentinel \<open>NotImplemented\<close>, not a
  number) and leaves every attribute as it was.
\<close>

theorem calculate_liqudiry_returns_none:
  "calculate_liqudiry s = (Inr PNone, s)
   \<and> \<not> not_implemented_signal (fst (calculate_liqudiry s))
   \<and> (\<forall>n. fst (calculate_liqudiry s) \<noteq> Inr (PInt n))
   \<and> (\<forall>f. fst (calculate_liqudiry s) \<noteq> Inr (PFloat f))"
  by (simp add: calculate_liqudiry_any not_implemented_signal_def)

text \<open>
  C5, as the claim states it, fails: on the instance \<open>PoolConfig(2000, 3000, 1000)\<close> the
  call neither raises \<open>NotImplementedError\<close> nor returns \<open>NotImplemented\<close>.
\<close>

theorem calculate_liqudiry_no_signal_counterexample:
  "\<not> not_implemented_signal
       (fst (calculate_liqudiry (PoolConfig_init (PInt 2000) (PInt 3000) (PInt 1000))))"
  by (simp add: calculate_liqudiry_any not_implemented_signal_def)

section \<open>The specification's scenarios for set_prices\<close>

text \<open>
  C1. On \<open>PoolConfig(2000, 3000, 1000)\<close> the call \<open>set_prices()\<close> returns no list: it
  raises \<open>AttributeError\<close> for \<open>initial\<close> and assigns nothing.
\<close>

theorem set_prices_scenario_raises:
  "set_prices rt (PoolConfig_init (PInt 2000) (PInt 3000) (PInt 1000)) =
     (Inl (AttributeError ''initial''), PoolConfig_init (PInt 2000) (PInt 3000) (PInt 1000))"
  by (rule set_prices_fresh)

text \<open>
  C6. On the positive, ordered inputs \<open>PoolConfig(2000.0, 3000.0, 1000.0)\<close> the call
  \<open>set_prices()\<close> returns no three prices that could be compared.
\<close>

theorem set_prices_ordered_inputs_no_prices:
  "\<forall>x y z. fst (set_prices rt (PoolConfig_init (PFloat (Fin 2000)) (PFloat (Fin 3000))
       (PFloat (Fin 1000)))) \<noteq> Inr (PList [x, y, z])"
  by (simp add: set_prices_fresh)

text \<open>
  C8. On \<open>PoolConfig(-2000, 3000, 1000)\<close>, with a negative bound, the constructor returns
  an instance holding the bounds as given, and \<open>set_prices()\<close> raises \<open>AttributeError\<close>,
  not the \<open>ValueError\<close> of a square root's domain error.
\<close>

theorem set_prices_negative_bound_attribute_error:
  "fst (set_prices rt (PoolConfig_init (PInt (- 2000)) (PInt 3000) (PInt 1000))) =
     Inl (AttributeError ''initial'')
   \<and> fst (set_prices rt (PoolConfig_init (PInt (- 2000)) (PInt 3000) (PInt 1000))) \<noteq>
     Inl ValueError
   \<and> PoolConfig_init (PInt (- 2000)) (PInt 3000) (PInt 1000) ''token0_initial'' =
     Some (PInt (- 2000))"
  by (simp add: set_prices_fresh) (simp add: PoolConfig_init_def)

section \<open>What each method may assign\<close>

lemma writes_only_return: "writes_only A (py_return x)"
  by (simp add: writes_only_def py_return_def)

lemma writes_only_lift: "writes_only A (py_lift r)"
  by (simp add: writes_only_def py_lift_def)

lemma writes_only_get_attr: "writes_only A (get_attr k)"
  by (simp add: writes_only_def get_attr_def split: option.split)

lemma writes_only_set_attr: "k \<in> A \<Longrightarrow> writes_only A (set_attr k v)"
  by (simp add: writes_only_def set_attr_def)

lemma writes_only_bind:
  assumes m: "writes_only A m" and f: "\<And>x. writes_only A (f x)"
  shows "writes_only A (py_bind m f)"
proof -
  have "snd (py_bind m f s) |` (- A) = s |` (- A)" for s
  proof (cases "m s")
    case (Pair r s')
    from m have eq: "s' |` (- A) = s |` (- A)"
      using Pair by (auto simp: writes_only_def dest: spec [of _ s])
    show ?thesis
    proof (cases r)
      case (Inl e)
      with Pair eq show ?thesis by (simp add: py_bind_def)
    next
      case (Inr x)
      from f [of x] have "snd (f x s') |` (- A) = s' |` (- A)"
        by (simp add: writes_only_def)
      with Pair Inr eq show ?thesis by (simp add: py_bind_def)
    qed
  qed
  then show ?thesis by (simp add: writes_only_def)
qed

lemmas writes_only_intros =
  writes_only_bind writes_only_return writes_only_lift writes_only_get_attr writes_only_set_attr

lemma writes_only_price_of: "writes_only A (price_of rt attr)"
  unfolding price_of_def by (intro writes_only_intros)

lemma writes_only_sqrtp_of: "writes_only A (sqrtp_of rt attr)"
  unfolding sqrtp_of_def by (intro writes_only_intros)

lemma writes_only_tick_of: "writes_only A (tick_of rt attr)"
  unfolding tick_of_def by (intro writes_only_intros)

lemma writes_only_set_prices: "writes_only price_fields (set_prices rt)"
  unfolding set_prices_def
  by (intro writes_only_bind writes_only_return writes_only_get_attr writes_only_price_of
      writes_only_set_attr) (simp_all add: price_fields_def)

lemma writes_only_set_price_to_sqrtp: "writes_only sqrtp_fields (set_price_to_sqrtp rt)"
  unfolding set_price_to_sqrtp_def
  by (intro writes_only_bind writes_only_return writes_only_get_attr writes_only_sqrtp_of
      writes_only_set_attr) (simp_all add: sqrtp_fields_def)

lemma writes_only_set_price_ticks: "writes_only tick_fields (set_price_ticks rt)"
  unfolding set_price_ticks_def
  by (intro writes_only_bind writes_only_return writes_only_get_attr writes_only_tick_of
      writes_only_set_attr) (simp_all add: tick_fields_def)

lemma writes_only_calculate_liqudiry: "writes_only {} calculate_liqudiry"
  unfolding calculate_liqudiry_def by (rule writes_only_return)

lemma writes_only_keeps:
  assumes "writes_only A m" and "B \<inter> A = {}"
  shows "snd (m s) |` B = s |` B"
proof -
  from assms(1) have "(snd (m s) |` (- A)) |` B = (s |` (- A)) |` B"
    by (simp add: writes_only_def)
  moreover from assms(2) have "- A \<inter> B = B" by auto
  ultimately show ?thesis by (simp add: restrict_restrict)
qed

lemma derived_disjoint:
  "input_fields \<inter> price_fields = {}" "input_fields \<inter> sqrtp_fields = {}"
  "input_fields \<inter> tick_fields = {}"
  by (simp_all add: input_fields_def price_fields_def sqrtp_fields_def tick_fields_def)

text \<open>
  C10. In every state of the instance and whatever its outcome, \<open>set_prices\<close> leaves every
  attribute but the three price fields as it was, \<open>set_price_to_sqrtp\<close> every attribute
  but the three sqrtp fields, \<open>set_price_ticks\<close> every attribute but the three tick fields,
  and \<open>calculate_liqudiry\<close> every attribute; so each of the four methods leaves the four
  attributes stored by the constructor as they were.
\<close>

theorem methods_frame:
  "snd (set_prices rt s) |` (- price_fields) = s |` (- price_fields)
   \<and> snd (set_price_to_sqrtp rt s) |` (- sqrtp_fields) = s |` (- sqrtp_fields)
   \<and> snd (set_price_ticks rt s) |` (- tick_fields) = s |` (- tick_fields)
   \<and> snd (calculate_liqudiry s) = s
   \<and> snd (call rt m s) |` input_fields = s |` input_fields"
proof -
  have "snd (call rt m s) |` input_fields = s |` input_fields"
    by (cases m)
      (simp_all add: call_def calculate_liqudiry_any
        writes_only_keeps [OF writes_only_set_prices derived_disjoint(1)]
        writes_only_keeps [OF writes_only_set_price_to_sqrtp derived_disjoint(2)]
        writes_only_keeps [OF writes_only_set_price_ticks derived_disjoint(3)])
  moreover have "snd (set_prices rt s) |` (- price_fields) = s |` (- price_fields)"
    using writes_only_set_prices by (simp add: writes_only_def)
  moreover have "snd (set_price_to_sqrtp rt s) |` (- sqrtp_fields) = s |` (- sqrtp_fields)"
    using writes_only_set_price_to_sqrtp by (simp add: writes_only_def)
  moreover have "snd (set_price_ticks rt s) |` (- tick_fields) = s |` (- tick_fields)"
    using writes_only_set_price_ticks by (simp add: writes_only_def)
  ultimately show ?thesis by (simp add: calculate_liqudiry_any)
qed


section \<open>Ticks of prices that are not positive\<close>

lemma tick_of_cases:
  assumes "s attr = Some v" and "real_number v = Some x"
  shows "(x \<le> 0 \<and> tick_of rt attr s = (Inl ValueError, s))
       \<or> (0 < x \<and> (\<exists>n. tick_of rt attr s = (Inr (PInt n), s)))"
  using assms
  by (auto simp: tick_of_def py_defs math_log_def math_floor_def real_number_def
      split: pyval.splits pyfloat.splits)

text \<open>
  C7. When the three price fields hold finite numbers (an \<open>int\<close> or a finite double each)
  and at least one of them is not positive, \<open>set_price_ticks\<close> raises \<open>ValueError\<close>, the
  domain error of \<open>math.log\<close>; the method catches nothing, so the exception is the outcome
  of the call.
\<close>

theorem set_price_ticks_domain_error:
  assumes p0: "s ''initial_price'' = Some v0" and r0: "real_number v0 = Some x0"
    and p1: "s ''upper_price_bound'' = Some v1" and r1: "real_number v1 = Some x1"
    and p2: "s ''lower_price_bound'' = Some v2" and r2: "real_number v2 = Some x2"
    and nonpos: "x0 \<le> 0 \<or> x1 \<le> 0 \<or> x2 \<le> 0"
  shows "fst (set_price_ticks rt s) = Inl ValueError"
proof (cases "x0 \<le> 0")
  case True
  with tick_of_cases [where s = s and attr = "''initial_price''" and rt = rt, OF p0 r0] show ?thesis
    by (auto simp: set_price_ticks_def py_bind_def)
next
  case x0: False
  with tick_of_cases [where s = s and attr = "''initial_price''" and rt = rt, OF p0 r0] obtain n0
    where t0: "tick_of rt ''initial_price'' s = (Inr (PInt n0), s)" by auto
  define s1 where "s1 = s(''initial_tick'' \<mapsto> PInt n0)"
  have q1: "s1 ''upper_price_bound'' = Some v1" and q2: "s1 ''lower_price_bound'' = Some v2"
    using p1 p2 by (simp_all add: s1_def)
  show ?thesis
  proof (cases "x1 \<le> 0")
    case True
    with tick_of_cases [where s = s1 and attr = "''upper_price_bound''" and rt = rt, OF q1 r1] have "tick_of rt ''upper_price_bound'' s1 = (Inl ValueError, s1)"
      by auto
    with t0 show ?thesis
      by (simp add: set_price_ticks_def py_bind_def set_attr_def s1_def)
  next
    case x1: False
    with tick_of_cases [where s = s1 and attr = "''upper_price_bound''" and rt = rt, OF q1 r1] obtain n1
      where t1: "tick_of rt ''upper_price_bound'' s1 = (Inr (PInt n1), s1)" by auto
    define s2 where "s2 = s1(''upper_tick'' \<mapsto> PInt n1)"
    have q2': "s2 ''lower_price_bound'' = Some v2"
      using q2 by (simp add: s2_def)
    from nonpos x0 x1 have "x2 \<le> 0" by simp
    with tick_of_cases [where s = s2 and attr = "''lower_price_bound''" and rt = rt, OF q2' r2]
    have "tick_of rt ''lower_price_bound'' s2 = (Inl ValueError, s2)" by auto
    with t0 t1 show ?thesis
      by (simp add: set_price_ticks_def py_bind_def set_attr_def s1_def s2_def)
  qed
qed

theorem set_price_ticks_domain_error_witness:
  "real_number (PFloat (Fin 2)) = Some 2 \<and> real_number (PFloat (Fin 0)) = Some 0
   \<and> real_number (PInt 3) = Some 3 \<and> (0::real) \<le> 0
   \<and> fst (set_price_ticks exact_runtime
         ((PoolConfig_init (PInt 2000) (PInt 3000) (PInt 1000))
            (''initial_price'' \<mapsto> PFloat (Fin 2),
             ''upper_price_bound'' \<mapsto> PFloat (Fin 0),
             ''lower_price_bound'' \<mapsto> PInt 3))) = Inl ValueError"
  using set_price_ticks_domain_error
    [where rt = exact_runtime
       and s = "(PoolConfig_init (PInt 2000) (PInt 3000) (PInt 1000))
            (''initial_price'' \<mapsto> PFloat (Fin 2),
             ''upper_price_bound'' \<mapsto> PFloat (Fin 0),
             ''lower_price_bound'' \<mapsto> PInt 3)"
       and ?v0.0 = "PFloat (Fin 2)" and ?x0.0 = 2
       and ?v1.0 = "PFloat (Fin 0)" and ?x1.0 = 0
       and ?v2.0 = "PInt 3" and ?x2.0 = 3]
  by (simp add: real_number_def)

section \<open>The Q96 square-root prices\<close>

lemma sqrtp_of_float:
  assumes "s attr = Some v" and "as_double rt v = Inr (Fin p)"
    and "0 \<le> p" and "0 \<le> libm_sqrt rt p"
  shows "sqrtp_of rt attr s = (Inr (PInt \<lfloor>libm_sqrt rt p * 2 ^ 96\<rfloor>), s)"
  using assms
  by (simp add: sqrtp_of_def py_defs math_sqrt_def sqrt_double_def
      float_mul_q96_def int_of_float_def q96_def)

text \<open>
  C3. When each of the three price fields holds a number that is, as a double, finite and
  not negative (a finite \<open>float\<close>, or an \<open>int\<close> that converts to one), and the runtime's
  square root of such a double is not negative, \<open>set_price_to_sqrtp\<close> raises nothing,
  stores in the three sqrtp fields the integers \<open>floor(sqrt(price) * 2^96)\<close> of the
  initial, upper and lower price field, \<open>sqrt\<close> being the runtime's square root applied
  to the price field as it stands, and returns them in that order; the three integers
  are not negative.
\<close>

theorem set_price_to_sqrtp_floor:
  assumes p0: "s ''initial_price'' = Some v0" and d0: "as_double rt v0 = Inr (Fin x0)"
    and p1: "s ''upper_price_bound'' = Some v1" and d1: "as_double rt v1 = Inr (Fin x1)"
    and p2: "s ''lower_price_bound'' = Some v2" and d2: "as_double rt v2 = Inr (Fin x2)"
    and n0: "0 \<le> x0" and n1: "0 \<le> x1" and n2: "0 \<le> x2"
    and rt: "\<forall>x\<ge>0. 0 \<le> libm_sqrt rt x"
  shows "set_price_to_sqrtp rt s =
     (Inr (PList [PInt \<lfloor>libm_sqrt rt x0 * 2 ^ 96\<rfloor>,
                  PInt \<lfloor>libm_sqrt rt x1 * 2 ^ 96\<rfloor>,
                  PInt \<lfloor>libm_sqrt rt x2 * 2 ^ 96\<rfloor>]),
      s(''initial_price_sqrtp'' \<mapsto> PInt \<lfloor>libm_sqrt rt x0 * 2 ^ 96\<rfloor>,
        ''upper_price_sqrtp'' \<mapsto> PInt \<lfloor>libm_sqrt rt x1 * 2 ^ 96\<rfloor>,
        ''lower_price_sqrtp'' \<mapsto> PInt \<lfloor>libm_sqrt rt x2 * 2 ^ 96\<rfloor>))
   \<and> 0 \<le> \<lfloor>libm_sqrt rt x0 * 2 ^ 96\<rfloor>
   \<and> 0 \<le> \<lfloor>libm_sqrt rt x1 * 2 ^ 96\<rfloor>
   \<and> 0 \<le> \<lfloor>libm_sqrt rt x2 * 2 ^ 96\<rfloor>"
proof -
  from rt n0 n1 n2 have r: "0 \<le> libm_sqrt rt x0" "0 \<le> libm_sqrt rt x1" "0 \<le> libm_sqrt rt x2"
    by simp_all
  define s1 where "s1 = s(''initial_price_sqrtp'' \<mapsto> PInt \<lfloor>libm_sqrt rt x0 * 2 ^ 96\<rfloor>)"
  define s2 where "s2 = s1(''upper_price_sqrtp'' \<mapsto> PInt \<lfloor>libm_sqrt rt x1 * 2 ^ 96\<rfloor>)"
  have q1: "s1 ''upper_price_bound'' = Some v1"
    using p1 by (simp add: s1_def)
  have q2: "s2 ''lower_price_bound'' = Some v2"
    using p2 by (simp add: s1_def s2_def)
  have "set_price_to_sqrtp rt s =
     (Inr (PList [PInt \<lfloor>libm_sqrt rt x0 * 2 ^ 96\<rfloor>,
                  PInt \<lfloor>libm_sqrt rt x1 * 2 ^ 96\<rfloor>,
                  PInt \<lfloor>libm_sqrt rt x2 * 2 ^ 96\<rfloor>]),
      s2(''lower_price_sqrtp'' \<mapsto> PInt \<lfloor>libm_sqrt rt x2 * 2 ^ 96\<rfloor>))"
    using sqrtp_of_float [where s = s and attr = "''initial_price''", OF p0 d0 n0 r(1)]
      sqrtp_of_float [where s = s1 and attr = "''upper_price_bound''", OF q1 d1 n1 r(2)]
      sqrtp_of_float [where s = s2 and attr = "''lower_price_bound''", OF q2 d2 n2 r(3)]
    by (simp add: set_price_to_sqrtp_def py_bind_def set_attr_def get_attr_def py_return_def
        s1_def s2_def)
  moreover from r have "0 \<le> \<lfloor>libm_sqrt rt x0 * 2 ^ 96\<rfloor>" "0 \<le> \<lfloor>libm_sqrt rt x1 * 2 ^ 96\<rfloor>"
    "0 \<le> \<lfloor>libm_sqrt rt x2 * 2 ^ 96\<rfloor>" by simp_all
  ultimately show ?thesis by (simp add: s1_def s2_def)
qed

theorem set_price_to_sqrtp_floor_witness:
  "as_double exact_runtime (PFloat (Fin 1)) = Inr (Fin 1)
   \<and> as_double exact_runtime (PInt 4) = Inr (Fin 4)
   \<and> as_double exact_runtime (PFloat (Fin 0)) = Inr (Fin 0)
   \<and> libm_sqrt exact_runtime 4 = 2
   \<and> fst (set_price_to_sqrtp exact_runtime
         ((PoolConfig_init (PInt 2000) (PInt 3000) (PInt 1000))
            (''initial_price'' \<mapsto> PFloat (Fin 1),
             ''upper_price_bound'' \<mapsto> PInt 4,
             ''lower_price_bound'' \<mapsto> PFloat (Fin 0)))) =
       Inr (PList [PInt (2 ^ 96), PInt (2 * 2 ^ 96), PInt 0])"
  using set_price_to_sqrtp_floor
    [where rt = exact_runtime
       and s = "(PoolConfig_init (PInt 2000) (PInt 3000) (PInt 1000))
            (''initial_price'' \<mapsto> PFloat (Fin 1),
             ''upper_price_bound'' \<mapsto> PInt 4,
             ''lower_price_bound'' \<mapsto> PFloat (Fin 0))"
       and ?v0.0 = "PFloat (Fin 1)" and ?x0.0 = 1
       and ?v1.0 = "PInt 4" and ?x1.0 = 4
       and ?v2.0 = "PFloat (Fin 0)" and ?x2.0 = 0]
  by (simp add: exact_runtime_def as_double_def)

section \<open>Ticks of positive prices\<close>

lemma measured_price_below: "measured_price < tick_power 95"
proof -
  have "(2273292767177985::int) * 10000 ^ 95 < 10001 ^ 95 * 2 ^ 51"
    by simp
  then have "real_of_int (2273292767177985 * 10000 ^ 95) < real_of_int (10001 ^ 95 * 2 ^ 51)"
    by (simp only: of_int_less_iff)
  then have "(2273292767177985::real) * 10000 ^ 95 < 10001 ^ 95 * 2 ^ 51"
    by (simp only: of_int_mult of_int_power of_int_numeral)
  then have "(2273292767177985::real) / 2 ^ 51 < 10001 ^ 95 / 10000 ^ 95"
    by (simp only: divide_less_eq less_divide_eq zero_less_power zero_less_numeral
        times_divide_eq_left if_True)
  then have "(2273292767177985::real) / 2 ^ 51 < (10001 / 10000) ^ 95"
    by (simp only: power_divide)
  then show ?thesis
    by (simp add: measured_price_def tick_power_def tick_base_def)
qed

lemma measured_price_pos: "0 < measured_price"
  by (simp add: measured_price_def)

lemma tick_of_positive:
  assumes "s attr = Some v" and "real_number v = Some x" and "0 < x"
  shows "tick_of rt attr s = (Inr (PInt \<lfloor>runtime_log rt v\<rfloor>), s)"
  using assms
  by (auto simp: tick_of_def py_defs math_log_def math_floor_def real_number_def runtime_log_def
      split: pyval.splits pyfloat.splits)

text \<open>
  C4, as the code has it. When the three price fields hold positive finite numbers (an
  \<open>int\<close> or a finite double each), \<open>set_price_ticks\<close> raises nothing, stores in the three
  tick fields the integers \<open>floor(math.log(price, 1.0001))\<close> of the initial, upper and
  lower price field, the logarithm being the double the runtime computes, and returns
  them in that order; each tick is the floor of that computed double:
  \<open>tick \<le> math.log(price, 1.0001) < tick + 1\<close>.
\<close>

theorem set_price_ticks_floor_of_runtime_log:
  assumes p0: "s ''initial_price'' = Some v0" and r0: "real_number v0 = Some x0"
    and p1: "s ''upper_price_bound'' = Some v1" and r1: "real_number v1 = Some x1"
    and p2: "s ''lower_price_bound'' = Some v2" and r2: "real_number v2 = Some x2"
    and pos: "0 < x0" "0 < x1" "0 < x2"
  shows "set_price_ticks rt s =
     (Inr (PList [PInt \<lfloor>runtime_log rt v0\<rfloor>, PInt \<lfloor>runtime_log rt v1\<rfloor>,
                  PInt \<lfloor>runtime_log rt v2\<rfloor>]),
      s(''initial_tick'' \<mapsto> PInt \<lfloor>runtime_log rt v0\<rfloor>,
        ''upper_tick'' \<mapsto> PInt \<lfloor>runtime_log rt v1\<rfloor>,
        ''lower_tick'' \<mapsto> PInt \<lfloor>runtime_log rt v2\<rfloor>))
   \<and> of_int \<lfloor>runtime_log rt v0\<rfloor> \<le> runtime_log rt v0
   \<and> runtime_log rt v0 < of_int (\<lfloor>runtime_log rt v0\<rfloor> + 1)
   \<and> of_int \<lfloor>runtime_log rt v1\<rfloor> \<le> runtime_log rt v1
   \<and> runtime_log rt v1 < of_int (\<lfloor>runtime_log rt v1\<rfloor> + 1)
   \<and> of_int \<lfloor>runtime_log rt v2\<rfloor> \<le> runtime_log rt v2
   \<and> runtime_log rt v2 < of_int (\<lfloor>runtime_log rt v2\<rfloor> + 1)"
proof -
  define s1 where "s1 = s(''initial_tick'' \<mapsto> PInt \<lfloor>runtime_log rt v0\<rfloor>)"
  define s2 where "s2 = s1(''upper_tick'' \<mapsto> PInt \<lfloor>runtime_log rt v1\<rfloor>)"
  have q1: "s1 ''upper_price_bound'' = Some v1"
    using p1 by (simp add: s1_def)
  have q2: "s2 ''lower_price_bound'' = Some v2"
    using p2 by (simp add: s1_def s2_def)
  have "set_price_ticks rt s =
     (Inr (PList [PInt \<lfloor>runtime_log rt v0\<rfloor>, PInt \<lfloor>runtime_log rt v1\<rfloor>,
                  PInt \<lfloor>runtime_log rt v2\<rfloor>]),
      s2(''lower_tick'' \<mapsto> PInt \<lfloor>runtime_log rt v2\<rfloor>))"
    using tick_of_positive [where s = s and attr = "''initial_price''", OF p0 r0 pos(1)]
      tick_of_positive [where s = s1 and attr = "''upper_price_bound''", OF q1 r1 pos(2)]
      tick_of_positive [where s = s2 and attr = "''lower_price_bound''", OF q2 r2 pos(3)]
    by (simp add: set_price_ticks_def py_bind_def set_attr_def get_attr_def py_return_def
        s1_def s2_def)
  then show ?thesis by (simp add: s1_def s2_def)
qed

theorem set_price_ticks_floor_of_runtime_log_witness:
  "real_number (PFloat (Fin measured_price)) = Some measured_price
   \<and> 0 < measured_price
   \<and> fst (set_price_ticks measured_runtime measured_state) =
       Inr (PList [PInt 95, PInt 95, PInt 95])
   \<and> snd (set_price_ticks measured_runtime measured_state) ''initial_tick'' = Some (PInt 95)"
  using set_price_ticks_floor_of_runtime_log
    [where rt = measured_runtime and s = measured_state
       and ?v0.0 = "PFloat (Fin measured_price)" and ?x0.0 = measured_price
       and ?v1.0 = "PFloat (Fin measured_price)" and ?x1.0 = measured_price
       and ?v2.0 = "PFloat (Fin measured_price)" and ?x2.0 = measured_price]
    measured_price_pos
  by (simp add: measured_state_def real_number_def runtime_log_def measured_runtime_def)

text \<open>
  C4, as the claim states it, fails: with the three price fields at the positive double
  \<open>1.0095447887339337\<close> the call returns the ticks \<open>[95, 95, 95]\<close>, and \<open>95\<close> does not
  bracket that price, which is below \<open>1.0001^95\<close>.
\<close>

theorem set_price_ticks_bracket_counterexample:
  "measured_state ''initial_price'' = Some (PFloat (Fin measured_price))
   \<and> 0 < measured_price
   \<and> fst (set_price_ticks measured_runtime measured_state) =
       Inr (PList [PInt 95, PInt 95, PInt 95])
   \<and> \<not> tick_brackets 95 measured_price"
proof -
  have "tick_of measured_runtime attr s = (Inr (PInt 95), s)"
    if "s attr = Some (PFloat (Fin measured_price))" for s attr
    using that measured_price_pos
    by (simp add: tick_of_def py_defs math_log_def math_floor_def measured_runtime_def)
  then have "fst (set_price_ticks measured_runtime measured_state) =
       Inr (PList [PInt 95, PInt 95, PInt 95])"
    by (simp add: set_price_ticks_def py_bind_def set_attr_def get_attr_def py_return_def
        measured_state_def)
  moreover have "\<not> tick_brackets 95 measured_price"
    using measured_price_below by (simp add: tick_brackets_def)
  ultimately show ?thesis
    using measured_price_pos by (simp add: measured_state_def)
qed

end
